theory Spec2Isabelle
  imports Main
begin

section \<open>SocketTransport: a reconnecting wrapper around one WebSocket\<close>

text \<open>
  A shallow embedding of \<^verbatim>\<open>lib/SocketTransport.js\<close>. The transport object is a record of
  its four mutable fields; the objects it talks to (the sockets made by the constructor it
  is parameterised with, the timers of the event loop, the subscribers of its own
  notifications) are kept in an explicit world, since the code mutates them through
  references: a socket dropped by the transport still exists, still carries the listeners
  that were registered on it, and may still deliver events.

  Every method maps a world to the world it leaves behind together with a completion:
  a JavaScript exception does not undo the assignments made before it was thrown.
\<close>

subsection \<open>Data\<close>

text \<open>The \<^verbatim>\<open>states\<close> array of the module.\<close>

datatype conn_state = unconnected | connecting | connected | retrying

text \<open>The four events of a socket for which a standard listener exists.\<close>

datatype event_name = EvOpen | EvError | EvClose | EvMessage

text \<open>
  What the transport publishes through its emitter: \<^verbatim>\<open>emit('connect')\<close>,
  \<^verbatim>\<open>emit('disconnect')\<close>, \<^verbatim>\<open>emit('message', data)\<close>, \<^verbatim>\<open>emit('error', error)\<close>
  and \<^verbatim>\<open>emit('send', message)\<close>. The type \<open>'p\<close> stands for the JavaScript values
  carried as payloads.
\<close>

datatype 'p notification = Connect | Disconnect | Message 'p | ErrorN 'p | SendN 'p

text \<open>
  Exceptions. \<open>SocketTransportStateError\<close> carries the \<^verbatim>\<open>data\<close> object of the source
  (\<^verbatim>\<open>state\<close> and \<^verbatim>\<open>readyState\<close>, the latter \<^verbatim>\<open>null\<close> as \<open>None\<close>). \<open>TypeError\<close> is
  what JavaScript throws on a property access through \<^verbatim>\<open>null\<close>; \<open>SocketError\<close> is an
  exception out of a socket's own \<^verbatim>\<open>close\<close> or \<^verbatim>\<open>send\<close>; \<open>SubscriberError\<close> is an
  exception out of \<^verbatim>\<open>emit\<close>; \<open>SocketConstructorError\<close> is an exception out of
  \<^verbatim>\<open>new SocketConstructor(URL)\<close>; \<open>ConstructionError\<close> is the \<^verbatim>\<open>Error\<close> of the
  transport's own constructor.
\<close>

datatype 'p exn =
    SocketTransportStateError conn_state "nat option"
  | TypeError
  | SocketError
  | SubscriberError "'p notification"
  | SocketConstructorError
  | ConstructionError

datatype 'p completion = Normal | Throw "'p exn"

text \<open>
  The capabilities of the objects that \<^verbatim>\<open>SocketConstructor\<close> yields: which of the two
  removal methods exist, and whether \<^verbatim>\<open>close()\<close> and \<^verbatim>\<open>send()\<close> throw.
\<close>

record socket_kind =
  has_removeEventListener :: bool
  has_removeListener :: bool
  close_throws :: bool
  send_throws :: bool

text \<open>
  A socket object: its \<^verbatim>\<open>readyState\<close> (0 connecting, 1 open, 2 closing, 3 closed), the
  standard listeners registered on it at the moment, in registration order, and a record
  of the calls it received.
\<close>

record 'p WebSocket =
  kind :: socket_kind
  readyState :: nat
  attached :: "event_name list"
  close_calls :: nat
  sent :: "'p list"

text \<open>
  The fields of a \<^verbatim>\<open>SocketTransport\<close>; \<open>t_x\<close> is \<^verbatim>\<open>this._x\<close>. A socket reference is
  the index of the socket in the world's list of constructed sockets, a timer handle is a
  positive number (an object or a non-zero integer in JavaScript, truthy in both cases).
\<close>

record SocketTransport =
  t_URL :: string
  t_socket :: "nat option"
  t_state :: conn_state
  t_active :: bool
  t_reconnectTimeout :: "nat option"

record 'p world =
  transport :: SocketTransport
  sockets :: "'p WebSocket list"
  timers :: "nat list"
  timer_count :: nat
  emitted :: "'p notification list"
  subscriber_throws :: "'p notification list"
  constructor_kind :: socket_kind
  constructor_calls :: nat
  constructor_throws :: "nat list"

subsection \<open>The collaborators\<close>

text \<open>
  \<^verbatim>\<open>emit\<close> delivers the notification to the subscribers (it is appended to the log) and
  throws when a subscriber does (for EventEmitter2 also: an \<^verbatim>\<open>error\<close> notification
  nobody listens to). Subscribers do not call back into the transport.
\<close>

definition emit :: "'p world \<Rightarrow> 'p notification \<Rightarrow> 'p world \<times> 'p completion" where
  "emit w n =
     (w\<lparr>emitted := emitted w @ [n]\<rparr>,
      if n \<in> set (subscriber_throws w) then Throw (SubscriberError n) else Normal)"

definition upd_socket :: "nat \<Rightarrow> ('p WebSocket \<Rightarrow> 'p WebSocket) \<Rightarrow> 'p world \<Rightarrow> 'p world" where
  "upd_socket sid f w = w\<lparr>sockets := (sockets w)[sid := f (sockets w ! sid)]\<rparr>"

text \<open>
  \<^verbatim>\<open>new SocketConstructor(URL)\<close> may throw (an invalid URL, for one). The world counts
  the calls of the constructor, and \<open>constructor_throws\<close> lists the calls, numbered from
  0, that throw; every other call yields a fresh socket, connecting, nothing registered.
\<close>

definition constructor_returns :: "'p world \<Rightarrow> bool" where
  "constructor_returns w = (constructor_calls w \<notin> set (constructor_throws w))"

definition new_socket :: "socket_kind \<Rightarrow> 'p WebSocket" where
  "new_socket k = \<lparr>kind = k, readyState = 0, attached = [], close_calls = 0, sent = []\<rparr>"

definition addEventListener :: "nat \<Rightarrow> event_name \<Rightarrow> 'p world \<Rightarrow> 'p world" where
  "addEventListener sid ev w = upd_socket sid (\<lambda>s. s\<lparr>attached := attached s @ [ev]\<rparr>) w"

text \<open>Both removal methods unregister the listener given.\<close>

definition removeEventListener :: "nat \<Rightarrow> event_name \<Rightarrow> 'p world \<Rightarrow> 'p world" where
  "removeEventListener sid ev w = upd_socket sid (\<lambda>s. s\<lparr>attached := remove1 ev (attached s)\<rparr>) w"

definition removeListener :: "nat \<Rightarrow> event_name \<Rightarrow> 'p world \<Rightarrow> 'p world" where
  "removeListener sid ev w = upd_socket sid (\<lambda>s. s\<lparr>attached := remove1 ev (attached s)\<rparr>) w"

text \<open>
  \<^verbatim>\<open>socket.close()\<close>: the call is counted; it throws if the socket is of that kind, and
  otherwise a socket that was connecting or open is closing.
\<close>

definition socket_close :: "nat \<Rightarrow> 'p world \<Rightarrow> 'p world \<times> 'p completion" where
  "socket_close sid w =
     (let s = sockets w ! sid in
      if close_throws (kind s)
      then (upd_socket sid (\<lambda>s. s\<lparr>close_calls := Suc (close_calls s)\<rparr>) w, Throw SocketError)
      else (upd_socket sid (\<lambda>s. s\<lparr>close_calls := Suc (close_calls s),
                                  readyState := max 2 (readyState s)\<rparr>) w, Normal))"

text \<open>\<^verbatim>\<open>socket.send(message)\<close>: throws, or the message is transmitted.\<close>

definition socket_send :: "nat \<Rightarrow> 'p \<Rightarrow> 'p world \<Rightarrow> 'p world \<times> 'p completion" where
  "socket_send sid m w =
     (let s = sockets w ! sid in
      if send_throws (kind s) then (w, Throw SocketError)
      else (upd_socket sid (\<lambda>s. s\<lparr>sent := sent s @ [m]\<rparr>) w, Normal))"

text \<open>\<^verbatim>\<open>setTimeout\<close> returns a new handle and keeps it pending; \<^verbatim>\<open>clearTimeout\<close> cancels.\<close>

definition setTimeout :: "'p world \<Rightarrow> 'p world \<times> nat" where
  "setTimeout w =
     (let h = Suc (timer_count w) in (w\<lparr>timers := timers w @ [h], timer_count := h\<rparr>, h))"

definition clearTimeout :: "nat \<Rightarrow> 'p world \<Rightarrow> 'p world" where
  "clearTimeout h w = w\<lparr>timers := removeAll h (timers w)\<rparr>"

subsection \<open>The constructor\<close>

definition fresh_transport :: "string \<Rightarrow> SocketTransport" where
  "fresh_transport url =
     \<lparr>t_URL = url, t_socket = None, t_state = unconnected, t_active = False,
      t_reconnectTimeout = None\<rparr>"

text \<open>A missing URL is the empty string here.\<close>

definition SocketTransport_new :: "string \<Rightarrow> 'p exn + SocketTransport" where
  "SocketTransport_new url = (if url = [] then Inl ConstructionError else Inr (fresh_transport url))"

text \<open>
  The world right after construction, for a constructor that yields sockets of kind \<open>k\<close>
  and throws at the calls \<open>cthr\<close>, and subscribers that throw on the notifications
  \<open>thr\<close>.
\<close>

definition init_world ::
  "socket_kind \<Rightarrow> nat list \<Rightarrow> 'p notification list \<Rightarrow> string \<Rightarrow> 'p world" where
  "init_world k cthr thr url =
     \<lparr>transport = fresh_transport url, sockets = [], timers = [], timer_count = 0,
      emitted = [], subscriber_throws = thr, constructor_kind = k,
      constructor_calls = 0, constructor_throws = cthr\<rparr>"

subsection \<open>State transition methods\<close>

text \<open>\<^verbatim>\<open>_setup\<close>: four registrations on \<^verbatim>\<open>this._socket\<close>.\<close>

definition t_setup :: "'p world \<Rightarrow> 'p world \<times> 'p completion" where
  "t_setup w =
     (case t_socket (transport w) of
        None \<Rightarrow> (w, Throw TypeError)
      | Some sid \<Rightarrow>
          (addEventListener sid EvMessage
            (addEventListener sid EvClose
              (addEventListener sid EvError
                (addEventListener sid EvOpen w))), Normal))"

text \<open>
  \<^verbatim>\<open>_connect\<close>: \<^verbatim>\<open>this._socket = new SocketConstructor(this._URL)\<close>, then
  \<^verbatim>\<open>_setup\<close>. When the constructor throws, the assignment does not happen and the
  exception leaves \<^verbatim>\<open>_connect\<close>.
\<close>

definition t_connect :: "'p world \<Rightarrow> 'p world \<times> 'p completion" where
  "t_connect w =
     (let w1 = w\<lparr>constructor_calls := Suc (constructor_calls w)\<rparr> in
      if constructor_returns w
      then t_setup (w1\<lparr>sockets := sockets w @ [new_socket (constructor_kind w)],
                       transport := (transport w)\<lparr>t_socket := Some (length (sockets w))\<rparr>\<rparr>)
      else (w1, Throw SocketConstructorError))"

text \<open>\<^verbatim>\<open>_teardown\<close>: guard on the reference, then whichever removal method exists.\<close>

definition t_teardown :: "'p world \<Rightarrow> 'p world" where
  "t_teardown w =
     (case t_socket (transport w) of
        None \<Rightarrow> w
      | Some sid \<Rightarrow>
          if has_removeEventListener (kind (sockets w ! sid)) then
            removeEventListener sid EvMessage
              (removeEventListener sid EvClose
                (removeEventListener sid EvError
                  (removeEventListener sid EvOpen w)))
          else if has_removeListener (kind (sockets w ! sid)) then
            removeListener sid EvMessage
              (removeListener sid EvClose
                (removeListener sid EvError
                  (removeListener sid EvOpen w)))
          else w)"

text \<open>
  \<^verbatim>\<open>_disconnect\<close>: clear the timeout if there is one; \<^verbatim>\<open>this._socket.close()\<close> inside
  \<^verbatim>\<open>try\<close> with an empty \<^verbatim>\<open>catch\<close> (which also catches the TypeError of a null
  reference); null the reference. Neither \<^verbatim>\<open>_teardown\<close> nor \<^verbatim>\<open>_handleDisconnect\<close> is
  called (the call is commented out in the source), and \<^verbatim>\<open>_state\<close> is not assigned.
\<close>

definition t_disconnect :: "'p world \<Rightarrow> 'p world" where
  "t_disconnect w =
     (let w1 = (case t_reconnectTimeout (transport w) of
                  None \<Rightarrow> w
                | Some h \<Rightarrow> (clearTimeout h w)
                             \<lparr>transport := (transport w)\<lparr>t_reconnectTimeout := None\<rparr>\<rparr>);
          w2 = (case t_socket (transport w1) of
                  None \<Rightarrow> w1
                | Some sid \<Rightarrow> fst (socket_close sid w1))
      in w2\<lparr>transport := (transport w2)\<lparr>t_socket := None\<rparr>\<rparr>)"

definition t_handleOpen :: "'p world \<Rightarrow> 'p world \<times> 'p completion" where
  "t_handleOpen w = emit (w\<lparr>transport := (transport w)\<lparr>t_state := connected\<rparr>\<rparr>) Connect"

text \<open>
  \<^verbatim>\<open>_retryConnection\<close>: unless the state is already \<^verbatim>\<open>retrying\<close>, it becomes so and a
  timeout is scheduled, the handle stored.
\<close>

definition t_retryConnection :: "'p world \<Rightarrow> 'p world" where
  "t_retryConnection w =
     (if t_state (transport w) \<noteq> retrying then
        (let w1 = w\<lparr>transport := (transport w)\<lparr>t_state := retrying\<rparr>\<rparr>;
             (w2, h) = setTimeout w1
         in w2\<lparr>transport := (transport w2)\<lparr>t_reconnectTimeout := Some h\<rparr>\<rparr>)
      else w)"

text \<open>The function given to \<^verbatim>\<open>setTimeout\<close> by \<^verbatim>\<open>_retryConnection\<close>.\<close>

definition retry_callback :: "'p world \<Rightarrow> 'p world \<times> 'p completion" where
  "retry_callback w =
     t_connect (w\<lparr>transport := (transport w)\<lparr>t_reconnectTimeout := None, t_state := connecting\<rparr>\<rparr>)"

definition t_handleDisconnect :: "'p world \<Rightarrow> 'p world \<times> 'p completion" where
  "t_handleDisconnect w =
     (let stateAtDisconnectTime = t_state (transport w);
          w1 = w\<lparr>transport := (transport w)\<lparr>t_state := unconnected\<rparr>\<rparr>;
          w2 = t_teardown w1;
          w3 = (if t_active (transport w2) then t_retryConnection w2 else w2)
      in if stateAtDisconnectTime = connected then emit w3 Disconnect else (w3, Normal))"

definition t_handleError :: "'p world \<Rightarrow> 'p \<Rightarrow> 'p world \<times> 'p completion" where
  "t_handleError w err =
     (case emit w (ErrorN err) of
        (w1, Normal) \<Rightarrow> t_handleDisconnect w1
      | (w1, Throw x) \<Rightarrow> (w1, Throw x))"

subsection \<open>Public methods\<close>

definition start :: "'p world \<Rightarrow> 'p world \<times> 'p completion" where
  "start w =
     (if \<not> t_active (transport w)
      then t_connect (w\<lparr>transport := (transport w)\<lparr>t_active := True\<rparr>\<rparr>)
      else (w, Normal))"

definition stop :: "'p world \<Rightarrow> 'p world \<times> 'p completion" where
  "stop w =
     (if t_active (transport w)
      then (t_disconnect (w\<lparr>transport := (transport w)\<lparr>t_active := False\<rparr>\<rparr>), Normal)
      else (w, Normal))"

text \<open>
  The \<^verbatim>\<open>catch\<close> block of \<^verbatim>\<open>send\<close>: it reads \<^verbatim>\<open>this._socket.readyState\<close> without a
  guard, so with a null reference the TypeError leaves the method.
\<close>

definition send_catch :: "'p world \<Rightarrow> 'p world \<times> 'p completion" where
  "send_catch w =
     (case t_socket (transport w) of
        None \<Rightarrow> (w, Throw TypeError)
      | Some sid \<Rightarrow>
          (w, Throw (SocketTransportStateError (t_state (transport w))
                       (Some (readyState (sockets w ! sid))))))"

definition send :: "'p world \<Rightarrow> 'p \<Rightarrow> 'p world \<times> 'p completion" where
  "send w message =
     (if t_state (transport w) \<noteq> connected then
        (w, Throw (SocketTransportStateError (t_state (transport w))
                     (case t_socket (transport w) of
                        None \<Rightarrow> None
                      | Some sid \<Rightarrow> Some (readyState (sockets w ! sid)))))
      else
        (case emit w (SendN message) of
           (w1, Throw x) \<Rightarrow> send_catch w1
         | (w1, Normal) \<Rightarrow>
             (case t_socket (transport w1) of
                None \<Rightarrow> send_catch w1
              | Some sid \<Rightarrow>
                  (case socket_send sid message w1 of
                     (w2, Throw x) \<Rightarrow> send_catch w2
                   | (w2, Normal) \<Rightarrow> (w2, Normal)))))"

subsection \<open>The event loop\<close>

text \<open>
  A socket delivers an event to the standard listener registered on it for that event, if
  there is one; the listeners of the constructor call \<^verbatim>\<open>_handleOpen\<close>,
  \<^verbatim>\<open>_handleError\<close>, \<^verbatim>\<open>_handleDisconnect\<close> and \<^verbatim>\<open>emit('message', data)\<close> on the
  transport, whichever socket they are registered on. An open socket has
  \<^verbatim>\<open>readyState\<close> 1 when its open event is delivered, a closed one 3.
\<close>

datatype 'p socket_event = Open | Error 'p | Close | MessageEv 'p

fun event_name_of :: "'p socket_event \<Rightarrow> event_name" where
  "event_name_of Open = EvOpen"
| "event_name_of (Error e) = EvError"
| "event_name_of Close = EvClose"
| "event_name_of (MessageEv d) = EvMessage"

fun listener :: "'p socket_event \<Rightarrow> 'p world \<Rightarrow> 'p world \<times> 'p completion" where
  "listener Open w = t_handleOpen w"
| "listener (Error e) w = t_handleError w e"
| "listener Close w = t_handleDisconnect w"
| "listener (MessageEv d) w = emit w (Message d)"

fun readyState_at :: "'p socket_event \<Rightarrow> nat \<Rightarrow> nat" where
  "readyState_at Open r = 1"
| "readyState_at Close r = 3"
| "readyState_at ev r = r"

definition listens :: "'p world \<Rightarrow> nat \<Rightarrow> event_name \<Rightarrow> bool" where
  "listens w sid ev = (sid < length (sockets w) \<and> ev \<in> set (attached (sockets w ! sid)))"

definition dispatch :: "'p world \<Rightarrow> nat \<Rightarrow> 'p socket_event \<Rightarrow> 'p world \<times> 'p completion" where
  "dispatch w sid ev =
     (let w1 = upd_socket sid (\<lambda>s. s\<lparr>readyState := readyState_at ev (readyState s)\<rparr>) w
      in if listens w1 sid (event_name_of ev) then listener ev w1 else (w1, Normal))"

text \<open>A pending timeout fires once; a cleared or unknown handle does nothing.\<close>

definition timer_fire :: "'p world \<Rightarrow> nat \<Rightarrow> 'p world \<times> 'p completion" where
  "timer_fire w h =
     (if h \<in> set (timers w) then retry_callback (w\<lparr>timers := removeAll h (timers w)\<rparr>)
      else (w, Normal))"

text \<open>Everything that can happen to a transport: the user's calls and the event loop's.\<close>

datatype 'p op = Start | Stop | Send 'p | SocketEvent nat "'p socket_event" | TimerFire nat

fun step :: "'p world \<Rightarrow> 'p op \<Rightarrow> 'p world \<times> 'p completion" where
  "step w Start = start w"
| "step w Stop = stop w"
| "step w (Send m) = send w m"
| "step w (SocketEvent sid ev) = dispatch w sid ev"
| "step w (TimerFire h) = timer_fire w h"

text \<open>
  A run: the operations one after the other. An exception ends the operation that threw
  it (it goes to the caller or to the event loop), not the run.
\<close>

definition exec :: "'p world \<Rightarrow> 'p op list \<Rightarrow> 'p world" where
  "exec w ops = foldl (\<lambda>w' op. fst (step w' op)) w ops"

text \<open>A socket with \<^verbatim>\<open>removeEventListener\<close> whose \<^verbatim>\<open>close\<close> and \<^verbatim>\<open>send\<close> succeed.\<close>

definition standard_kind :: socket_kind where
  "standard_kind =
     \<lparr>has_removeEventListener = True, has_removeListener = False,
      close_throws = False, send_throws = False\<rparr>"

text \<open>
  The world used for concrete runs: standard sockets, a constructor and subscribers that
  never throw.
\<close>

definition world0 :: "string world" where
  "world0 = init_world standard_kind [] [] ''ws://host''"

section \<open>Basic facts\<close>

lemmas collaborator_defs =
  emit_def upd_socket_def constructor_returns_def new_socket_def addEventListener_def removeEventListener_def
  removeListener_def socket_close_def socket_send_def setTimeout_def clearTimeout_def

lemmas method_defs =
  t_setup_def t_connect_def t_teardown_def t_disconnect_def t_handleOpen_def
  t_retryConnection_def retry_callback_def t_handleDisconnect_def t_handleError_def
  start_def stop_def send_catch_def send_def

lemmas loop_defs = listens_def dispatch_def timer_fire_def exec_def

lemmas world0_defs = world0_def init_world_def fresh_transport_def standard_kind_def

subsection \<open>What each method does to the fields of the transport\<close>

lemma upd_socket_fields [simp]:
  "transport (upd_socket sid f w) = transport w"
  "timers (upd_socket sid f w) = timers w"
  "timer_count (upd_socket sid f w) = timer_count w"
  "emitted (upd_socket sid f w) = emitted w"
  "subscriber_throws (upd_socket sid f w) = subscriber_throws w"
  "length (sockets (upd_socket sid f w)) = length (sockets w)"
  by (simp_all add: upd_socket_def)

lemma upd_socket_id [simp]: "upd_socket sid (\<lambda>s. s) w = w"
  by (simp add: upd_socket_def)

lemma listens_upd_readyState [simp]:
  "listens (upd_socket sid (\<lambda>s. s\<lparr>readyState := g s\<rparr>) w) sid' n = listens w sid' n"
  by (cases "sid = sid'") (auto simp: listens_def upd_socket_def)

lemma transport_emit [simp]: "transport (fst (emit w n)) = transport w"
  by (simp add: emit_def)

lemma teardown_fields [simp]:
  "transport (t_teardown w) = transport w"
  "timer_count (t_teardown w) = timer_count w"
  "timers (t_teardown w) = timers w"
  "emitted (t_teardown w) = emitted w"
  by (simp_all add: t_teardown_def collaborator_defs split: option.splits)


lemma emitted_connect [simp]: "emitted (fst (t_connect w)) = emitted w"
  by (simp add: t_connect_def t_setup_def Let_def upd_socket_def addEventListener_def)

lemma connect_completion:
  "snd (t_connect w) = (if constructor_returns w then Normal else Throw SocketConstructorError)"
  by (simp add: t_connect_def t_setup_def Let_def)

text \<open>
  A constructor that throws at its first call: \<^verbatim>\<open>start()\<close> has set the transport
  active before the call, and the exception leaves it active without a socket.
\<close>

lemma start_constructor_throws:
  "snd (start (init_world standard_kind [0] [] ''not a url'' :: string world))
     = Throw SocketConstructorError
   \<and> t_active (transport (fst (start (init_world standard_kind [0] [] ''not a url'' :: string world))))
   \<and> t_socket (transport (fst (start (init_world standard_kind [0] [] ''not a url'' :: string world))))
     = None"
  by (simp add: init_world_def fresh_transport_def start_def t_connect_def
        constructor_returns_def Let_def)

lemma transport_retryConnection:
  "transport (t_retryConnection w) =
     (if t_state (transport w) \<noteq> retrying
      then (transport w)\<lparr>t_state := retrying, t_reconnectTimeout := Some (Suc (timer_count w))\<rparr>
      else transport w)"
  by (simp add: t_retryConnection_def collaborator_defs Let_def)

lemma emitted_retryConnection [simp]: "emitted (t_retryConnection w) = emitted w"
  by (simp add: t_retryConnection_def collaborator_defs Let_def)

lemma transport_handleDisconnect:
  "transport (fst (t_handleDisconnect w)) =
     (if t_active (transport w)
      then (transport w)\<lparr>t_state := retrying, t_reconnectTimeout := Some (Suc (timer_count w))\<rparr>
      else (transport w)\<lparr>t_state := unconnected\<rparr>)"
  by (simp add: t_handleDisconnect_def Let_def transport_retryConnection)

lemma emitted_handleDisconnect:
  "emitted (fst (t_handleDisconnect w)) =
     emitted w @ (if t_state (transport w) = connected then [Disconnect] else [])"
  by (simp add: t_handleDisconnect_def Let_def emit_def)

lemma transport_handleError:
  "transport (fst (t_handleError w e)) =
     (if ErrorN e \<in> set (subscriber_throws w) then transport w
      else if t_active (transport w)
      then (transport w)\<lparr>t_state := retrying, t_reconnectTimeout := Some (Suc (timer_count w))\<rparr>
      else (transport w)\<lparr>t_state := unconnected\<rparr>)"
  by (simp add: t_handleError_def emit_def transport_handleDisconnect)






lemma transport_dispatch:
  "transport (fst (dispatch w sid ev)) =
     (if listens w sid (event_name_of ev)
      then (case ev of
              Open \<Rightarrow> (transport w)\<lparr>t_state := connected\<rparr>
            | Error e \<Rightarrow> transport (fst (t_handleError w e))
            | Close \<Rightarrow> transport (fst (t_handleDisconnect w))
            | MessageEv d \<Rightarrow> transport w)
      else transport w)"
  by (cases ev)
     (simp_all add: dispatch_def Let_def t_handleOpen_def transport_handleError
        transport_handleDisconnect)

subsection \<open>What each operation publishes\<close>

lemma emitted_dispatch:
  "emitted (fst (dispatch w sid ev)) =
     (if listens w sid (event_name_of ev)
      then (case ev of
              Open \<Rightarrow> emitted w @ [Connect]
            | Error e \<Rightarrow>
                emitted w @ [ErrorN e] @
                  (if ErrorN e \<notin> set (subscriber_throws w) \<and> t_state (transport w) = connected
                   then [Disconnect] else [])
            | Close \<Rightarrow> emitted w @ (if t_state (transport w) = connected then [Disconnect] else [])
            | MessageEv d \<Rightarrow> emitted w @ [Message d])
      else emitted w)"
  by (cases ev)
     (simp_all add: dispatch_def Let_def t_handleOpen_def t_handleError_def
        emitted_handleDisconnect emit_def)

lemma emitted_start [simp]: "emitted (fst (start w)) = emitted w"
  by (simp add: start_def)

lemma emitted_stop [simp]: "emitted (fst (stop w)) = emitted w"
  by (simp add: stop_def t_disconnect_def collaborator_defs Let_def split: option.splits)

lemma emitted_timer_fire [simp]: "emitted (fst (timer_fire w h)) = emitted w"
  by (simp add: timer_fire_def retry_callback_def)

lemma emitted_send:
  "emitted (fst (send w m)) =
     (if t_state (transport w) = connected then emitted w @ [SendN m] else emitted w)"
  by (simp add: send_def send_catch_def collaborator_defs Let_def split: option.splits)

subsection \<open>Runs\<close>

lemma exec_Nil [simp]: "exec w [] = w"
  by (simp add: exec_def)

lemma exec_snoc [simp]: "exec w (ops @ [op]) = fst (step (exec w ops) op)"
  by (simp add: exec_def)

section \<open>The claims\<close>

subsection \<open>Sending\<close>

text \<open>
  C1. In every state other than \<^verbatim>\<open>connected\<close>, \<^verbatim>\<open>send\<close> throws a
  SocketTransportStateError whose data hold the current state and the \<^verbatim>\<open>readyState\<close> of
  the referenced socket, \<^verbatim>\<open>null\<close> when there is no socket. The world is returned as it
  was: nothing is transmitted and no \<^verbatim>\<open>send\<close> notification is published.
\<close>

theorem send_unless_connected_throws:
  "t_state (transport w) \<noteq> connected \<Longrightarrow>
     send w m =
       (w, Throw (SocketTransportStateError (t_state (transport w))
                    (case t_socket (transport w) of
                       None \<Rightarrow> None
                     | Some sid \<Rightarrow> Some (readyState (sockets w ! sid)))))"
  by (simp add: send_def)

text \<open>Before \<^verbatim>\<open>start()\<close> there is no socket; after it the socket is connecting.\<close>

theorem send_unless_connected_throws_witness:
  "t_state (transport world0) \<noteq> connected
   \<and> send world0 ''hey there'' = (world0, Throw (SocketTransportStateError unconnected None))
   \<and> t_state (transport (exec world0 [Start])) \<noteq> connected
   \<and> send (exec world0 [Start]) ''hey there'' =
       (exec world0 [Start], Throw (SocketTransportStateError unconnected (Some 0)))"
  using send_unless_connected_throws [of world0 "''hey there''"]
        send_unless_connected_throws [of "exec world0 [Start]" "''hey there''"]
  by (simp add: world0_defs loop_defs method_defs collaborator_defs Let_def)

text \<open>
  C10. \<^verbatim>\<open>send\<close> leaves every field of the transport as it was, whether it returns or
  throws (a SocketTransportStateError, or the TypeError of its \<^verbatim>\<open>catch\<close> block).
\<close>

theorem send_preserves_transport: "transport (fst (send w m)) = transport w"
  by (simp add: send_def send_catch_def collaborator_defs Let_def split: option.splits)

theorem send_preserves_transport_witness:
  "transport (fst (send (exec world0 [Start, SocketEvent 0 Open]) ''hey there''))
     = transport (exec world0 [Start, SocketEvent 0 Open])
   \<and> snd (send (exec world0 [Start, SocketEvent 0 Open]) ''hey there'') = Normal
   \<and> sent (sockets (fst (send (exec world0 [Start, SocketEvent 0 Open]) ''hey there'')) ! 0)
     = [''hey there'']"
  using send_preserves_transport [of "exec world0 [Start, SocketEvent 0 Open]" "''hey there''"]
  by (simp add: world0_defs loop_defs method_defs collaborator_defs Let_def)

subsection \<open>The socket reference\<close>




subsection \<open>Stopping\<close>

text \<open>
  C3. \<^verbatim>\<open>stop()\<close> on an active transport leaves the state \<^verbatim>\<open>unconnected\<close>, the
  pending retry timer cleared, the socket closed and dropped, the transport inactive.
  The code does not do this. \<^verbatim>\<open>stop\<close> and \<^verbatim>\<open>_disconnect\<close> never assign the state:
  stopped while connected, the transport still says \<^verbatim>\<open>connected\<close> with a null socket
  reference, and \<^verbatim>\<open>send\<close> passes its guard and leaves with a TypeError. And only the
  stored handle is cleared: with two timers pending, \<^verbatim>\<open>stop()\<close> leaves the first,
  which later opens a socket on the stopped transport.
\<close>

theorem stop_keeps_state:
  "t_active (transport (exec world0 [Start, SocketEvent 0 Open]))
   \<and> t_state (transport (fst (stop (exec world0 [Start, SocketEvent 0 Open])))) = connected
   \<and> t_socket (transport (fst (stop (exec world0 [Start, SocketEvent 0 Open])))) = None
   \<and> snd (send (exec world0 [Start, SocketEvent 0 Open, Stop]) ''hey there'') = Throw TypeError
   \<and> timers (exec world0 [Start, Stop, Start, SocketEvent 1 (Error ''reset''),
                           SocketEvent 0 Close, Stop]) = [1]
   \<and> \<not> t_active (transport (exec world0 [Start, Stop, Start, SocketEvent 1 (Error ''reset''),
                           SocketEvent 0 Close, Stop, TimerFire 1]))
   \<and> t_socket (transport (exec world0 [Start, Stop, Start, SocketEvent 1 (Error ''reset''),
                           SocketEvent 0 Close, Stop, TimerFire 1])) = Some 2"
  by (simp add: world0_defs loop_defs method_defs collaborator_defs Let_def)

subsection \<open>Listeners\<close>

text \<open>
  C4. Every listener registered on a socket during a connect attempt is removed from it
  again, so that after \<^verbatim>\<open>stop()\<close> followed by \<^verbatim>\<open>start()\<close> the previous socket
  carries no listener. The code does not do this: \<^verbatim>\<open>stop\<close> closes and drops the socket
  without \<^verbatim>\<open>_teardown\<close>, and the close event that follows finds the reference null, so
  that \<^verbatim>\<open>_teardown\<close> returns at its guard. The first socket keeps all four listeners.
\<close>

theorem stop_start_leaks_listeners:
  "attached (sockets (exec world0 [Start, Stop, Start]) ! 0)
     = [EvOpen, EvError, EvClose, EvMessage]
   \<and> t_socket (transport (exec world0 [Start, Stop, Start])) = Some 1
   \<and> attached (sockets (exec world0 [Start, Stop, SocketEvent 0 Close, Start]) ! 0)
     = [EvOpen, EvError, EvClose, EvMessage]"
  by (simp add: world0_defs loop_defs method_defs collaborator_defs Let_def)

subsection \<open>Notifications\<close>

text \<open>
  C5. \<^verbatim>\<open>_handleDisconnect\<close> publishes \<^verbatim>\<open>disconnect\<close> exactly when the state it finds
  is \<^verbatim>\<open>connected\<close>, and an operation publishes one \<^verbatim>\<open>disconnect\<close> if it is a close
  event, or an error event whose \<^verbatim>\<open>error\<close> notification returns, delivered to a
  registered listener in state \<^verbatim>\<open>connected\<close>; every other operation publishes none.
\<close>

theorem disconnect_notification:
  "emitted (fst (t_handleDisconnect w)) =
     emitted w @ (if t_state (transport w) = connected then [Disconnect] else [])
   \<and> count_list (emitted (fst (step w op))) Disconnect =
       count_list (emitted w) Disconnect +
         (case op of
            SocketEvent sid Close \<Rightarrow>
              if listens w sid EvClose \<and> t_state (transport w) = connected then 1 else 0
          | SocketEvent sid (Error e) \<Rightarrow>
              if listens w sid EvError \<and> ErrorN e \<notin> set (subscriber_throws w)
                 \<and> t_state (transport w) = connected then 1 else 0
          | _ \<Rightarrow> 0)"
proof
  show "emitted (fst (t_handleDisconnect w)) =
     emitted w @ (if t_state (transport w) = connected then [Disconnect] else [])"
    by (rule emitted_handleDisconnect)
next
  show "count_list (emitted (fst (step w op))) Disconnect =
       count_list (emitted w) Disconnect +
         (case op of
            SocketEvent sid Close \<Rightarrow>
              if listens w sid EvClose \<and> t_state (transport w) = connected then 1 else 0
          | SocketEvent sid (Error e) \<Rightarrow>
              if listens w sid EvError \<and> ErrorN e \<notin> set (subscriber_throws w)
                 \<and> t_state (transport w) = connected then 1 else 0
          | _ \<Rightarrow> 0)"
  proof (cases op)
    case (SocketEvent sid ev)
    then show ?thesis by (cases ev) (simp_all add: emitted_dispatch)
  qed (simp_all add: emitted_send)
qed

text \<open>
  A close right after a successful open publishes one \<^verbatim>\<open>disconnect\<close>; a close or an
  error before any open publishes none.
\<close>

theorem disconnect_notification_witness:
  "emitted (exec world0 [Start, SocketEvent 0 Open]) = [Connect]
   \<and> emitted (fst (step (exec world0 [Start, SocketEvent 0 Open]) (SocketEvent 0 Close)))
       = [Connect, Disconnect]
   \<and> count_list (emitted (fst (step (exec world0 [Start]) (SocketEvent 0 Close)))) Disconnect = 0
   \<and> count_list (emitted (fst (step (exec world0 [Start]) (SocketEvent 0 (Error ''reset''))))) Disconnect = 0"
  using disconnect_notification [of "exec world0 [Start, SocketEvent 0 Open]" "SocketEvent 0 Close"]
        disconnect_notification [of "exec world0 [Start]" "SocketEvent 0 Close"]
        disconnect_notification [of "exec world0 [Start]" "SocketEvent 0 (Error ''reset'')"]
  by (simp add: world0_defs loop_defs method_defs collaborator_defs Let_def)




text \<open>
  C9. A message event with payload \<open>P\<close>, delivered to the registered message listener,
  publishes exactly one \<^verbatim>\<open>message\<close> notification, carrying \<open>P\<close> itself, and changes
  no field of the transport.
\<close>

theorem message_passthrough:
  "listens w sid EvMessage \<Longrightarrow>
     emitted (fst (step w (SocketEvent sid (MessageEv P)))) = emitted w @ [Message P]
   \<and> transport (fst (step w (SocketEvent sid (MessageEv P)))) = transport w"
  by (simp add: emitted_dispatch transport_dispatch)

theorem message_passthrough_witness:
  "listens (exec world0 [Start, SocketEvent 0 Open]) 0 EvMessage
   \<and> emitted (fst (step (exec world0 [Start, SocketEvent 0 Open]) (SocketEvent 0 (MessageEv ''hello''))))
       = [Connect, Message ''hello'']"
  using message_passthrough [of "exec world0 [Start, SocketEvent 0 Open]" 0 "''hello''"]
  by (simp add: world0_defs loop_defs method_defs collaborator_defs Let_def)

subsection \<open>The retry timer\<close>

text \<open>
  In state \<^verbatim>\<open>retrying\<close>, \<^verbatim>\<open>_retryConnection\<close> does nothing. But
  \<^verbatim>\<open>_handleDisconnect\<close>, its only caller, assigns \<^verbatim>\<open>unconnected\<close> first, so that on
  an active transport it schedules a timer in every state.
\<close>

lemma retryConnection_guard: "t_state (transport w) = retrying \<Longrightarrow> t_retryConnection w = w"
  by (simp add: t_retryConnection_def)

lemma handleDisconnect_schedules:
  "t_active (transport w) \<Longrightarrow>
     timers (fst (t_handleDisconnect w)) = timers w @ [Suc (timer_count w)]"
  by (simp add: t_handleDisconnect_def t_retryConnection_def Let_def emit_def setTimeout_def)

text \<open>
  C6. After an unplanned disconnect of an active transport one retry timer is pending,
  and a second failure event before it fires schedules no second one. The code does not
  do this: the socket dropped by an earlier \<^verbatim>\<open>stop()\<close> still carries its listeners,
  and its close event, arriving during the retry delay of the next socket, runs
  \<^verbatim>\<open>_handleDisconnect\<close> again. Two timers are pending, and only the second handle is
  stored.
\<close>

theorem second_failure_second_timer:
  "timers (exec world0 [Start, Stop, Start, SocketEvent 1 (Error ''reset'')]) = [1]
   \<and> t_state (transport (exec world0 [Start, Stop, Start, SocketEvent 1 (Error ''reset'')])) = retrying
   \<and> timers (exec world0 [Start, Stop, Start, SocketEvent 1 (Error ''reset''), SocketEvent 0 Close])
       = [1, 2]
   \<and> t_reconnectTimeout
       (transport (exec world0 [Start, Stop, Start, SocketEvent 1 (Error ''reset''), SocketEvent 0 Close]))
       = Some 2"
  by (simp add: world0_defs loop_defs method_defs collaborator_defs Let_def)

text \<open>
  C7. The timer handle is non-null if and only if the state is \<^verbatim>\<open>retrying\<close>. The
  code does not keep this: \<^verbatim>\<open>stop()\<close> during the retry delay clears the handle and
  cancels the timer, but never assigns the state, which stays \<^verbatim>\<open>retrying\<close> with no
  retry delay running.
\<close>

theorem stopped_retrying_without_handle:
  "t_state (transport (exec world0 [Start, SocketEvent 0 (Error ''reset''), Stop])) = retrying
   \<and> t_reconnectTimeout (transport (exec world0 [Start, SocketEvent 0 (Error ''reset''), Stop])) = None
   \<and> timers (exec world0 [Start, SocketEvent 0 (Error ''reset''), Stop]) = []"
  by (simp add: world0_defs loop_defs method_defs collaborator_defs Let_def)

end
